theory Spec2Isabelle
  imports Complex_Main
begin

section \<open>Values of the JavaScript runtime\<close>

text \<open>
  A response body is the object handed to \<^verbatim>\<open>res.json\<close>. It is kept as a structured
  value: an object is the list of its properties in the order the source writes them.
  A JavaScript number is a \<^typ>\<open>real\<close>; the counts and byte sizes of this program are
  natural numbers embedded in it.
\<close>

datatype json =
    JString string
  | JNumber real
  | JBool bool
  | JNull
  | JArray "json list"
  | JObject "(string \<times> json) list"

text \<open>Reading the property \<open>k\<close> of a value; \<open>None\<close> is JavaScript's \<^verbatim>\<open>undefined\<close>.\<close>

fun field :: "string \<Rightarrow> json \<Rightarrow> json option" where
  "field k (JObject kvs) = map_of kvs k"
| "field k _ = None"

text \<open>The property names of an object.\<close>

fun keys :: "json \<Rightarrow> string set" where
  "keys (JObject kvs) = fst ` set kvs"
| "keys _ = {}"

text \<open>
  \<^verbatim>\<open>catch (error)\<close> receives whatever was thrown: an \<^verbatim>\<open>Error\<close> instance, which
  carries the name of its kind (\<^verbatim>\<open>SyntaxError\<close>, \<^verbatim>\<open>TypeError\<close>, ...) and a message, or
  any other value. The error-handling middleware of the source declares \<^verbatim>\<open>err: Error\<close>.
\<close>

datatype js_error = Error (name: string) (message: string)

datatype thrown = ThrownError js_error | ThrownValue json

subsection \<open>Decimal digits\<close>

definition digit :: "nat \<Rightarrow> char" where
  "digit n = char_of (48 + n)"

text \<open>\<open>pad w n\<close>: the last \<open>w\<close> decimal digits of \<open>n\<close>, zero-padded on the left.\<close>

fun pad :: "nat \<Rightarrow> nat \<Rightarrow> string" where
  "pad 0 n = []"
| "pad (Suc w) n = pad w (n div 10) @ [digit (n mod 10)]"

text \<open>
  The decimal representation of a natural number, as a template literal
  \<^verbatim>\<open>`${n}`\<close> prints an integer below \<open>10\<^sup>2\<^sup>1\<close>: no leading zero, \<open>0\<close> as "0".
\<close>

function decimal :: "nat \<Rightarrow> string" where
  "decimal n = (if n < 10 then [digit n] else decimal (n div 10) @ [digit (n mod 10)])"
  by pat_completeness auto
termination
  by (relation "measure id") auto

declare decimal.simps [simp del]

text \<open>Reading decimal digits back; \<open>None\<close> when a character is not a digit.\<close>

definition digit_value :: "char \<Rightarrow> nat option" where
  "digit_value c =
     (let n = (of_char c :: nat) in if 48 \<le> n \<and> n \<le> 57 then Some (n - 48) else None)"

fun read_digits :: "nat \<Rightarrow> string \<Rightarrow> nat option" where
  "read_digits acc [] = Some acc"
| "read_digits acc (c # cs) =
     (case digit_value c of None \<Rightarrow> None | Some v \<Rightarrow> read_digits (10 * acc + v) cs)"

definition read_decimal :: "string \<Rightarrow> nat option" where
  "read_decimal s = (if s = [] then None else read_digits 0 s)"

subsection \<open>The clock: \<^verbatim>\<open>new Date().toISOString()\<close>\<close>

text \<open>
  \<^verbatim>\<open>new Date()\<close> reads the system clock: a time value, the number of milliseconds
  since 1970-01-01T00:00:00Z, at most 8.64e15 (the largest time value of the language).
  The clock is taken to be at or after the epoch.
\<close>

typedef time_value = "{t :: nat. t \<le> 8640000000000000}"
  morphisms time_ms TimeValue
  by (rule exI [of _ 0]) simp

text \<open>
  The fields of a time value, after the definitions of the language standard:
  \<^verbatim>\<open>Day(t) = floor(t / msPerDay)\<close>, \<^verbatim>\<open>YearFromTime\<close> is the year whose first day is
  the latest one not after \<open>t\<close>, found here by walking forward from 1970; the month
  (0 to 11) and the day of the month likewise from the lengths of the months.
\<close>

definition msPerDay :: nat where
  "msPerDay = 86400000"

definition InLeapYear :: "nat \<Rightarrow> bool" where
  "InLeapYear y = (y mod 4 = 0 \<and> (y mod 100 \<noteq> 0 \<or> y mod 400 = 0))"

definition DaysInYear :: "nat \<Rightarrow> nat" where
  "DaysInYear y = (if InLeapYear y then 366 else 365)"

definition DaysInMonth :: "nat \<Rightarrow> nat \<Rightarrow> nat" where
  "DaysInMonth y m =
     (if m = 1 then (if InLeapYear y then 29 else 28)
      else if m = 3 \<or> m = 5 \<or> m = 8 \<or> m = 10 then 30
      else 31)"

function YearFromDay :: "nat \<Rightarrow> nat \<Rightarrow> nat \<times> nat" where
  "YearFromDay y d =
     (if d < DaysInYear y then (y, d) else YearFromDay (Suc y) (d - DaysInYear y))"
  by pat_completeness auto
termination
  by (relation "measure snd") (auto simp: DaysInYear_def)

declare YearFromDay.simps [simp del]

function MonthFromDay :: "nat \<Rightarrow> nat \<Rightarrow> nat \<Rightarrow> nat \<times> nat" where
  "MonthFromDay y m d =
     (if d < DaysInMonth y m then (m, d) else MonthFromDay y (Suc m) (d - DaysInMonth y m))"
  by pat_completeness auto
termination
  by (relation "measure (\<lambda>(y, m, d). d)") (auto simp: DaysInMonth_def)

declare MonthFromDay.simps [simp del]

text \<open>
  \<^verbatim>\<open>toISOString\<close>: \<^verbatim>\<open>YYYY-MM-DDTHH:mm:ss.sssZ\<close> in UTC; a year beyond 9999 is written
  with a sign and six digits.
\<close>

definition year_string :: "nat \<Rightarrow> string" where
  "year_string y = (if y \<le> 9999 then pad 4 y else CHR ''+'' # pad 6 y)"

definition toISOString :: "time_value \<Rightarrow> string" where
  "toISOString tv =
     (let t = time_ms tv;
          (y, doy) = YearFromDay 1970 (t div msPerDay);
          (m, dm) = MonthFromDay y 0 doy
      in year_string y @ ''-'' @ pad 2 (m + 1) @ ''-'' @ pad 2 (dm + 1) @ ''T''
         @ pad 2 (t div 3600000 mod 24) @ '':'' @ pad 2 (t div 60000 mod 60) @ '':''
         @ pad 2 (t div 1000 mod 60) @ ''.'' @ pad 3 (t mod 1000) @ ''Z'')"

subsection \<open>Reading an ISO 8601 date-time\<close>

text \<open>
  What it means for a string to be a valid ISO 8601 date-time in UTC, and which instant it
  denotes: the calendar date and the time of day are read field by field, each field is
  checked against its range (month 1 to 12, day within the month, hour below 24, minute
  and second below 60), and the instant is the number of milliseconds since the epoch.
\<close>

fun DayFromYear :: "nat \<Rightarrow> nat" where
  "DayFromYear 0 = 0"
| "DayFromYear (Suc n) = DayFromYear n + DaysInYear (1970 + n)"

fun DaysBeforeMonth :: "nat \<Rightarrow> nat \<Rightarrow> nat" where
  "DaysBeforeMonth y 0 = 0"
| "DaysBeforeMonth y (Suc m) = DaysBeforeMonth y m + DaysInMonth y m"

definition instant :: "nat \<Rightarrow> nat \<Rightarrow> nat \<Rightarrow> nat \<Rightarrow> nat \<Rightarrow> nat \<Rightarrow> nat \<Rightarrow> nat option" where
  "instant y mo d h mi s f =
     (if 1970 \<le> y \<and> 1 \<le> mo \<and> mo \<le> 12 \<and> 1 \<le> d \<and> d \<le> DaysInMonth y (mo - 1)
         \<and> h < 24 \<and> mi < 60 \<and> s < 60
      then Some ((DayFromYear (y - 1970) + DaysBeforeMonth y (mo - 1) + (d - 1)) * msPerDay
                 + h * 3600000 + mi * 60000 + s * 1000 + f)
      else None)"

fun parse_time :: "nat \<Rightarrow> string \<Rightarrow> nat option" where
  "parse_time y [c1, m1, m2, c2, d1, d2, c3, h1, h2, c4, n1, n2, c5, s1, s2, c6, f1, f2, f3, c7] =
     (if c1 = CHR ''-'' \<and> c2 = CHR ''-'' \<and> c3 = CHR ''T'' \<and> c4 = CHR '':'' \<and> c5 = CHR '':''
         \<and> c6 = CHR ''.'' \<and> c7 = CHR ''Z''
      then
        (case (read_digits 0 [m1, m2], read_digits 0 [d1, d2], read_digits 0 [h1, h2],
               read_digits 0 [n1, n2], read_digits 0 [s1, s2], read_digits 0 [f1, f2, f3]) of
           (Some mo, Some d, Some h, Some mi, Some s, Some f) \<Rightarrow> instant y mo d h mi s f
         | _ \<Rightarrow> None)
      else None)"
| "parse_time y _ = None"

fun parse_iso8601 :: "string \<Rightarrow> nat option" where
  "parse_iso8601 (c # y1 # y2 # y3 # y4 # y5 # y6 # rest) =
     (if c = CHR ''+''
      then (case read_digits 0 [y1, y2, y3, y4, y5, y6] of
              None \<Rightarrow> None | Some y \<Rightarrow> parse_time y rest)
      else (case read_digits 0 [c, y1, y2, y3] of
              None \<Rightarrow> None | Some y \<Rightarrow> parse_time y (y4 # y5 # y6 # rest)))"
| "parse_iso8601 _ = None"

section \<open>Requests, responses and the middleware stack\<close>

text \<open>
  Modelled from the spec: the body of a request as the two body parsers of the framework
  find it. They decode JSON and URL-encoded bodies, and a request with a malformed body
  fails with a parse error, an \<^verbatim>\<open>Error\<close> raised by the parser.
\<close>

datatype body_state = WellFormed | MalformedJson js_error | MalformedUrlencoded js_error

text \<open>A request as the handlers see it: \<^verbatim>\<open>req.method\<close>, \<^verbatim>\<open>req.path\<close>, and its body.\<close>

record request =
  "method" :: string
  path :: string
  body :: body_state

text \<open>
  What a handler sends: a JSON value (\<^verbatim>\<open>res.json\<close>, or \<^verbatim>\<open>res.send\<close> of an object), or
  the page of the documentation UI rendering a specification document. \<^verbatim>\<open>res.status\<close>
  sets the status; a handler that does not set it answers 200.
\<close>

datatype payload = Json json | DocumentationUI json

record response =
  status :: nat
  sent :: payload

text \<open>
  The database client \<^verbatim>\<open>prisma\<close> is imported from \<^verbatim>\<open>./config/database.js\<close>; it is a
  parameter of the model. Each of the three operations the handler uses,
  \<^verbatim>\<open>prisma.$connect()\<close>, \<^verbatim>\<open>prisma.user.count()\<close> and \<^verbatim>\<open>prisma.post.count()\<close>, either
  resolves or rejects with a thrown value. The calls a request makes are recorded with
  their results, in the order they are made.
\<close>

record db_client =
  connect :: "thrown option"
  user_count :: "thrown + nat"
  post_count :: "thrown + nat"

datatype db_call = Connect "thrown option" | UserCount "thrown + nat" | PostCount "thrown + nat"

text \<open>
  A handler ends the request with a response, passes it on (\<^verbatim>\<open>next()\<close>), or raises an
  exception (\<^verbatim>\<open>next(err)\<close>, or a throw).
\<close>

datatype outcome = Respond response | Next | Raise js_error

type_synonym handler = "request \<Rightarrow> db_call list \<times> outcome"

text \<open>
  The layers of an application in the order of their declaration: \<^verbatim>\<open>app.use(fn)\<close>,
  \<^verbatim>\<open>app.use(path, fn)\<close>, \<^verbatim>\<open>app.get(path, fn)\<close>, and \<^verbatim>\<open>app.use\<close> of a function of four
  parameters, an error handler.
\<close>

datatype layer =
    Use handler
  | UseAt string handler
  | Get string handler
  | UseError "js_error \<Rightarrow> handler"

text \<open>
  Modelled from the spec: the matching of the framework, whose router is a library. A
  route matches on exact path and method. \<^verbatim>\<open>app.use(fn)\<close> takes every request,
  \<^verbatim>\<open>app.use(path, fn)\<close> every method on \<open>path\<close> and on the paths below it.
\<close>

definition mounted_at :: "string \<Rightarrow> string \<Rightarrow> bool" where
  "mounted_at p q = (q = p \<or> take (Suc (length p)) q = p @ ''/'')"

fun matches :: "layer \<Rightarrow> request \<Rightarrow> bool" where
  "matches (Use h) req = True"
| "matches (UseAt p h) req = mounted_at p (path req)"
| "matches (Get p h) req = (method req = ''GET'' \<and> path req = p)"
| "matches (UseError h) req = True"

text \<open>
  Modelled from the spec: one layer of the framework's dispatch. The result is \<open>None\<close>
  when the layer is skipped: it does not match, or it is an error handler while no
  exception is pending, or an ordinary layer while one is.
\<close>

fun step :: "layer \<Rightarrow> js_error option \<Rightarrow> request \<Rightarrow> (db_call list \<times> outcome) option" where
  "step (UseError h) (Some e) req = Some (h e req)"
| "step (UseError h) None req = None"
| "step (Use h) None req = Some (h req)"
| "step (UseAt p h) None req = (if matches (UseAt p h) req then Some (h req) else None)"
| "step (Get p h) None req = (if matches (Get p h) req then Some (h req) else None)"
| "step l (Some e) req = None"

text \<open>
  Modelled from the spec: the framework's dispatch. The layers run in the order of their
  declaration; the first one that answers ends the request; an exception raised by a
  layer is caught and handed to the next error handler. The result is the outcome at the
  end: the response of the layer that answered, \<open>Next\<close> when every layer passed the
  request on, \<open>Raise e\<close> when the exception \<open>e\<close> reached the end of the stack.
\<close>

fun walk :: "layer list \<Rightarrow> js_error option \<Rightarrow> request \<Rightarrow> db_call list \<times> outcome" where
  "walk [] None req = ([], Next)"
| "walk [] (Some e) req = ([], Raise e)"
| "walk (l # ls) pending req =
     (case step l pending req of
        None \<Rightarrow> walk ls pending req
      | Some (calls, Respond r) \<Rightarrow> (calls, Respond r)
      | Some (calls, Next) \<Rightarrow> (calls @ fst (walk ls None req), snd (walk ls None req))
      | Some (calls, Raise e) \<Rightarrow> (calls @ fst (walk ls (Some e) req), snd (walk ls (Some e) req)))"

definition handle :: "layer list \<Rightarrow> request \<Rightarrow> db_call list \<times> outcome" where
  "handle ls req = walk ls None req"

text \<open>A request is routed when a route or a mount of the stack matches it.\<close>

fun is_route :: "layer \<Rightarrow> bool" where
  "is_route (Get p h) = True"
| "is_route (UseAt p h) = True"
| "is_route _ = False"

definition routed :: "layer list \<Rightarrow> request \<Rightarrow> bool" where
  "routed ls req = list_ex (\<lambda>l. is_route l \<and> matches l req) ls"

section \<open>The application\<close>

text \<open>
  What a handler reads from its surroundings. The server: the environment and the
  constants of the process, the database client, and the route annotations found in the
  files \<^verbatim>\<open>./src/routes/*.ts\<close>, a parameter of the model. The readings: what the calls
  \<^verbatim>\<open>new Date()\<close>, \<^verbatim>\<open>process.uptime()\<close> and \<^verbatim>\<open>process.memoryUsage()\<close> return while the
  request is handled.
\<close>

record server =
  NODE_ENV :: "string option"
  version :: string
  platform :: string
  prisma :: db_client
  routes_annotations :: "(string \<times> json) list"

record readings =
  now :: time_value
  uptime :: real
  rss :: nat
  heapUsed :: nat

subsection \<open>Middlewares\<close>

text \<open>
  Modelled from the spec: the CORS middleware \<^verbatim>\<open>cors()\<close>, a library. It injects headers
  into the response (the responses of the model carry none) and passes the request on.
\<close>

definition cors :: handler where
  "cors req = ([], Next)"

text \<open>
  Modelled from the spec: the body parsers \<^verbatim>\<open>express.json()\<close> and
  \<^verbatim>\<open>express.urlencoded({ extended: true })\<close> of the framework. Each raises the parse
  error of a body it finds malformed and passes every other request on.
\<close>

definition express_json :: handler where
  "express_json req = (case body req of MalformedJson e \<Rightarrow> ([], Raise e) | _ \<Rightarrow> ([], Next))"

definition express_urlencoded :: handler where
  "express_urlencoded req =
     (case body req of MalformedUrlencoded e \<Rightarrow> ([], Raise e) | _ \<Rightarrow> ([], Next))"

text \<open>
  The request logger of the source: it writes one line to the console and calls
  \<^verbatim>\<open>next()\<close>. Console output is not part of the model.
\<close>

definition logger :: handler where
  "logger req = ([], Next)"

subsection \<open>Route handlers of \<^verbatim>\<open>src/index.ts\<close>\<close>

text \<open>\<^verbatim>\<open>a || b\<close> on an optional string: \<open>b\<close> when \<open>a\<close> is undefined or empty.\<close>

definition or_else :: "string option \<Rightarrow> string \<Rightarrow> string" where
  "or_else a b = (case a of None \<Rightarrow> b | Some s \<Rightarrow> if s = [] then b else s)"

text \<open>
  \<^verbatim>\<open>`${Math.round(bytes / 1024 / 1024)} MB`\<close>. \<^verbatim>\<open>Math.round\<close> rounds a half upwards, as
  \<^const>\<open>round\<close> does; dividing a byte count by 1024 is exact.
\<close>

definition number_string :: "int \<Rightarrow> string" where
  "number_string i = (if i < 0 then CHR ''-'' # decimal (nat (- i)) else decimal (nat i))"

definition megabytes :: "nat \<Rightarrow> string" where
  "megabytes bytes = number_string (round (real bytes / 1024 / 1024)) @ '' MB''"

definition health :: "server \<Rightarrow> readings \<Rightarrow> handler" where
  "health srv rd req =
     ([], Respond \<lparr>status = 200, sent = Json (JObject
        [(''message'', JString ''Ready''),
         (''timestamp'', JString (toISOString (now rd))),
         (''environment'', JString (or_else (NODE_ENV srv) ''development'')),
         (''version'', JString ''1.0.0'')])\<rparr>)"

definition info :: "server \<Rightarrow> readings \<Rightarrow> handler" where
  "info srv rd req =
     ([], Respond \<lparr>status = 200, sent = Json (JObject
        [(''appName'', JString ''Backend Development Project API''),
         (''nodeVersion'', JString (version srv)),
         (''platform'', JString (platform srv)),
         (''uptime'', JNumber (uptime rd)),
         (''memoryUsage'', JObject
            [(''rss'', JString (megabytes (rss rd))),
             (''heapUsed'', JString (megabytes (heapUsed rd)))])])\<rparr>)"

text \<open>The \<^verbatim>\<open>catch\<close> block of \<^verbatim>\<open>/db-test\<close>.\<close>

definition db_failed :: "thrown \<Rightarrow> outcome" where
  "db_failed error =
     Respond \<lparr>status = 500, sent = Json (JObject
       [(''error'', JString ''Database connection failed''),
        (''message'', JString (case error of
            ThrownError e \<Rightarrow> message e
          | ThrownValue v \<Rightarrow> ''Unknown error''))])\<rparr>"

definition db_test :: "server \<Rightarrow> readings \<Rightarrow> handler" where
  "db_test srv rd req =
     (case connect (prisma srv) of
        Some error \<Rightarrow> ([Connect (Some error)], db_failed error)
      | None \<Rightarrow>
         (case user_count (prisma srv) of
            Inl error \<Rightarrow> ([Connect None, UserCount (Inl error)], db_failed error)
          | Inr userCount \<Rightarrow>
             (case post_count (prisma srv) of
                Inl error \<Rightarrow>
                  ([Connect None, UserCount (Inr userCount), PostCount (Inl error)],
                   db_failed error)
              | Inr postCount \<Rightarrow>
                  ([Connect None, UserCount (Inr userCount), PostCount (Inr postCount)],
                   Respond \<lparr>status = 200, sent = Json (JObject
                     [(''message'', JString ''Database connection successful''),
                      (''database'', JString ''Supabase PostgreSQL''),
                      (''userCount'', JNumber (real userCount)),
                      (''postCount'', JNumber (real postCount)),
                      (''timestamp'', JString (toISOString (now rd)))])\<rparr>))))"

definition not_found :: handler where
  "not_found req =
     ([], Respond \<lparr>status = 404, sent = Json (JObject
        [(''error'', JString ''Route not found''),
         (''path'', JString (path req)),
         (''method'', JString (method req))])\<rparr>)"

definition error_handler :: "js_error \<Rightarrow> handler" where
  "error_handler err req =
     ([], Respond \<lparr>status = 500, sent = Json (JObject
        [(''error'', JString ''Internal Server Error''),
         (''message'', JString (message err))])\<rparr>)"

subsection \<open>API documentation (\<^verbatim>\<open>config/swagger.ts\<close>)\<close>

definition swaggerDefinition :: json where
  "swaggerDefinition = JObject
     [(''openapi'', JString ''3.0.0''),
      (''info'', JObject
         [(''title'', JString ''Backend Development API project''),
          (''version'', JString ''1.0.0''),
          (''description'', JString ''REST API documentation for backend develoment project''),
          (''contact'', JObject
             [(''name'', JString ''M. Rafi ash shiddiqie''),
              (''email'', JString ''m.raffi1808@gmail,com'')]),
          (''license'', JObject
             [(''name'', JString ''MIT''),
              (''url'', JString ''https://opensource.org/licenses/MIT'')])]),
      (''servers'', JArray
         [JObject [(''url'', JString ''http://localhost:3000''),
                   (''description'', JString ''Development server'')],
          JObject [(''url'', JString ''https://your-production-url.com''),
                   (''description'', JString ''Production server'')]]),
      (''components'', JObject
         [(''securitySchemes'', JObject
             [(''bearerAuth'', JObject
                 [(''type'', JString ''http''),
                  (''scheme'', JString ''bearer''),
                  (''bearerFormat'', JString ''JWT'')])])]),
      (''security'', JArray [JObject [(''bearerAuth'', JArray [])]])]"

text \<open>
  The \<^verbatim>\<open>@swagger\<close> annotations of \<^verbatim>\<open>src/index.ts\<close>, one entry for each annotated path.
\<close>

definition typed :: "string \<Rightarrow> json" where
  "typed t = JObject [(''type'', JString t)]"

definition example :: "string \<Rightarrow> string \<Rightarrow> json" where
  "example t e = JObject [(''type'', JString t), (''example'', JString e)]"

definition operation :: "string \<Rightarrow> string \<Rightarrow> (string \<times> json) list \<Rightarrow> json" where
  "operation summary description responses = JObject
     [(''get'', JObject
        [(''summary'', JString summary),
         (''description'', JString description),
         (''tags'', JArray [JString ''Health'']),
         (''responses'', JObject responses)])]"

definition json_content :: "string \<Rightarrow> (string \<times> json) list \<Rightarrow> json" where
  "json_content description properties = JObject
     [(''description'', JString description),
      (''content'', JObject
         [(''application/json'', JObject
             [(''schema'', JObject
                 [(''type'', JString ''object''),
                  (''properties'', JObject properties)])])])]"

definition index_annotations :: "(string \<times> json) list" where
  "index_annotations =
     [(''/'', operation ''Health check endpoint'' ''Returns API status and basic information''
         [(''200'', json_content ''API is running successfully''
             [(''message'', example ''string'' ''Ready''),
              (''timestamp'', JObject
                 [(''type'', JString ''string''),
                  (''format'', JString ''date-time''),
                  (''example'', JString ''2026-01-09T12:00:00.000Z'')]),
              (''environment'', example ''string'' ''development''),
              (''version'', example ''string'' ''1.0.0'')])]),
      (''/info'', operation ''Get system information'' ''Returns detailed system diagnostics''
         [(''200'', json_content ''System information retrieved successfully''
             [(''appName'', typed ''string''),
              (''version'', typed ''string''),
              (''nodeVersion'', typed ''string''),
              (''platform'', typed ''string''),
              (''uptime'', typed ''number''),
              (''memoryUsage'', typed ''object'')])]),
      (''/db-test'', operation ''Test database connection''
         ''Verify Prisma can connect to Supabase PostgreSQL''
         [(''200'', json_content ''Database connection successful''
             [(''message'', typed ''string''),
              (''database'', typed ''string''),
              (''userCount'', typed ''integer''),
              (''postCount'', typed ''integer''),
              (''timestamp'', typed ''string'')]),
          (''500'', JObject [(''description'', JString ''Database connection failed'')])])]"

text \<open>
  Modelled from the spec: the documentation generator \<^verbatim>\<open>swaggerJsdoc\<close>, a library.
  Given the static metadata and the annotated route descriptions it
  produces the specification document: the metadata with the annotated paths as its
  \<^verbatim>\<open>paths\<close>.
\<close>

definition swaggerJsdoc :: "json \<Rightarrow> (string \<times> json) list \<Rightarrow> json" where
  "swaggerJsdoc metadata annotations =
     (case metadata of
        JObject properties \<Rightarrow> JObject (properties @ [(''paths'', JObject annotations)])
      | other \<Rightarrow> other)"

text \<open>\<^verbatim>\<open>apis: ["./src/routes/*.ts", "./src/index.ts"]\<close>\<close>

definition swaggerSpec :: "server \<Rightarrow> json" where
  "swaggerSpec srv = swaggerJsdoc swaggerDefinition (routes_annotations srv @ index_annotations)"

text \<open>
  Modelled from the spec: the UI renderer mounted at \<^verbatim>\<open>/api-docs\<close> answers 200 with the
  documentation page of the document it was set up with.
\<close>

definition swagger_ui :: "json \<Rightarrow> handler" where
  "swagger_ui document req = ([], Respond \<lparr>status = 200, sent = DocumentationUI document\<rparr>)"

definition api_docs_json :: "json \<Rightarrow> handler" where
  "api_docs_json document req = ([], Respond \<lparr>status = 200, sent = Json document\<rparr>)"

definition setupSwagger :: "server \<Rightarrow> layer list" where
  "setupSwagger srv =
     [UseAt ''/api-docs'' (swagger_ui (swaggerSpec srv)),
      Get ''/api-docs.json'' (api_docs_json (swaggerSpec srv))]"

subsection \<open>The stack of \<^verbatim>\<open>src/index.ts\<close>\<close>

definition app :: "server \<Rightarrow> readings \<Rightarrow> layer list" where
  "app srv rd =
     [Use cors, Use express_json, Use express_urlencoded, Use logger]
     @ setupSwagger srv
     @ [Get ''/'' (health srv rd),
        Get ''/info'' (info srv rd),
        Get ''/db-test'' (db_test srv rd),
        Use not_found,
        UseError error_handler]"

subsection \<open>The second server file (\<^verbatim>\<open>part_000\<close>)\<close>

text \<open>
  The same stack without the documentation and the database probe; its health response
  has no version and its info response another application name.
\<close>

definition health_part_000 :: "server \<Rightarrow> readings \<Rightarrow> handler" where
  "health_part_000 srv rd req =
     ([], Respond \<lparr>status = 200, sent = Json (JObject
        [(''message'', JString ''Ready''),
         (''timestamp'', JString (toISOString (now rd))),
         (''environment'', JString (or_else (NODE_ENV srv) ''development''))])\<rparr>)"

definition info_part_000 :: "server \<Rightarrow> readings \<Rightarrow> handler" where
  "info_part_000 srv rd req =
     ([], Respond \<lparr>status = 200, sent = Json (JObject
        [(''appName'', JString ''Backend Learning API''),
         (''nodeVersion'', JString (version srv)),
         (''platform'', JString (platform srv)),
         (''uptime'', JNumber (uptime rd)),
         (''memoryUsage'', JObject
            [(''rss'', JString (megabytes (rss rd))),
             (''heapUsed'', JString (megabytes (heapUsed rd)))])])\<rparr>)"

definition app_part_000 :: "server \<Rightarrow> readings \<Rightarrow> layer list" where
  "app_part_000 srv rd =
     [Use cors, Use express_json, Use express_urlencoded, Use logger,
      Get ''/'' (health_part_000 srv rd),
      Get ''/info'' (info_part_000 srv rd),
      Use not_found,
      UseError error_handler]"

section \<open>Vocabulary of the properties\<close>

text \<open>The response of a run, when a layer answered; its JSON body, when it has one.\<close>

fun response_of :: "db_call list \<times> outcome \<Rightarrow> response option" where
  "response_of (calls, Respond r) = Some r"
| "response_of (calls, out) = None"

fun json_of :: "db_call list \<times> outcome \<Rightarrow> json option" where
  "json_of (calls, Respond r) = (case sent r of Json v \<Rightarrow> Some v | _ \<Rightarrow> None)"
| "json_of (calls, out) = None"

text \<open>A value without the properties named in \<open>ks\<close>, and a run compared up to them.\<close>

fun without :: "string list \<Rightarrow> json \<Rightarrow> json" where
  "without ks (JObject kvs) = JObject (filter (\<lambda>kv. fst kv \<notin> set ks) kvs)"
| "without ks v = v"

fun payload_without :: "string list \<Rightarrow> payload \<Rightarrow> payload" where
  "payload_without ks (Json v) = Json (without ks v)"
| "payload_without ks p = p"

fun outcome_without :: "string list \<Rightarrow> outcome \<Rightarrow> outcome" where
  "outcome_without ks (Respond r) = Respond (r\<lparr>sent := payload_without ks (sent r)\<rparr>)"
| "outcome_without ks out = out"

definition run_without :: "string list \<Rightarrow> db_call list \<times> outcome \<Rightarrow> db_call list \<times> outcome" where
  "run_without ks run = (fst run, outcome_without ks (snd run))"

text \<open>
  The shapes of the data model: the names of the properties of a body, and the success
  shapes (health, info, database probe, specification document, documentation page).
\<close>

fun property_names :: "json \<Rightarrow> string list" where
  "property_names (JObject kvs) = map fst kvs"
| "property_names v = []"

definition success_shape :: "payload \<Rightarrow> bool" where
  "success_shape p =
     (case p of
        DocumentationUI d \<Rightarrow> True
      | Json v \<Rightarrow>
          property_names v = [''message'', ''timestamp'', ''environment'', ''version'']
          \<or> property_names v = [''message'', ''timestamp'', ''environment'']
          \<or> property_names v = [''appName'', ''nodeVersion'', ''platform'', ''uptime'', ''memoryUsage'']
          \<or> property_names v = [''message'', ''database'', ''userCount'', ''postCount'', ''timestamp'']
          \<or> (field ''openapi'' v \<noteq> None \<and> field ''paths'' v \<noteq> None))"

definition not_found_shape :: "request \<Rightarrow> payload \<Rightarrow> bool" where
  "not_found_shape req p =
     (p = Json (JObject [(''error'', JString ''Route not found''),
                         (''path'', JString (path req)),
                         (''method'', JString (method req))]))"

definition internal_error_shape :: "payload \<Rightarrow> bool" where
  "internal_error_shape p =
     (case p of
        Json (JObject [(k1, JString e), (k2, JString m)]) \<Rightarrow>
          k1 = ''error'' \<and> k2 = ''message''
          \<and> (e = ''Internal Server Error'' \<or> e = ''Database connection failed'')
      | _ \<Rightarrow> False)"

section \<open>A deployment to evaluate the model on\<close>

definition sample_db :: db_client where
  "sample_db = \<lparr>connect = None, user_count = Inr 3, post_count = Inr 5\<rparr>"

definition sample_server :: server where
  "sample_server =
     \<lparr>NODE_ENV = Some ''production'', version = ''v20.11.0'', platform = ''linux'',
      prisma = sample_db, routes_annotations = []\<rparr>"

definition sample_readings :: readings where
  "sample_readings =
     \<lparr>now = TimeValue 1767960000000, uptime = 12.5, rss = 52953088, heapUsed = 10485760\<rparr>"

definition parse_failure :: js_error where
  "parse_failure = Error ''SyntaxError'' ''Unexpected end of JSON input''"

text \<open>The same deployment with a database that cannot be reached, and with one whose
  first query rejects with a value that is not an \<^verbatim>\<open>Error\<close>.\<close>

definition unreachable_db :: db_client where
  "unreachable_db =
     \<lparr>connect = Some (ThrownError (Error ''PrismaClientInitializationError''
                   ''Cannot reach the database server'')),
      user_count = Inr 3, post_count = Inr 5\<rparr>"


text \<open>Two deployments whose connection succeeds and whose second count query rejects.\<close>

definition failing_posts_db :: db_client where
  "failing_posts_db =
     \<lparr>connect = None, user_count = Inr 3,
      post_count = Inl (ThrownError (Error ''PrismaClientKnownRequestError''
                     ''The table public.Post does not exist''))\<rparr>"


section \<open>Digits and dates\<close>

lemma digit_value_digit: "n < 10 \<Longrightarrow> digit_value (digit n) = Some n"
  by (simp add: digit_value_def digit_def Let_def)

lemma of_char_digit: "n < 10 \<Longrightarrow> (of_char (digit n) :: nat) = 48 + n"
  by (simp add: digit_def)

lemma digit_not_plus: "n < 10 \<Longrightarrow> digit n \<noteq> CHR ''+''"
proof
  assume "n < 10" and "digit n = CHR ''+''"
  then have "(of_char (digit n) :: nat) = of_char CHR ''+''" by simp
  with \<open>n < 10\<close> show False by (simp add: of_char_digit)
qed

lemma read_digits_append:
  "read_digits acc (xs @ ys) =
     (case read_digits acc xs of None \<Rightarrow> None | Some a \<Rightarrow> read_digits a ys)"
  by (induction xs arbitrary: acc) (auto split: option.splits)

lemma read_digits_pad: "read_digits acc (pad w n) = Some (acc * 10 ^ w + n mod 10 ^ w)"
proof (induction w arbitrary: n acc)
  case 0
  then show ?case by simp
next
  case (Suc w)
  have "n mod (10 * 10 ^ w) = 10 * (n div 10 mod 10 ^ w) + n mod 10"
    by (simp add: mod_mult2_eq)
  then show ?case
    by (simp add: read_digits_append Suc.IH digit_value_digit algebra_simps)
qed

lemma pad2: "pad 2 n = [digit (n div 10 mod 10), digit (n mod 10)]"
  by (simp add: numeral_2_eq_2)

lemma pad3: "pad 3 n = [digit (n div 10 div 10 mod 10), digit (n div 10 mod 10), digit (n mod 10)]"
  by (simp add: numeral_3_eq_3)

lemma pad4:
  "pad 4 n = [digit (n div 10 div 10 div 10 mod 10), digit (n div 10 div 10 mod 10),
              digit (n div 10 mod 10), digit (n mod 10)]"
proof -
  have "(4::nat) = Suc (Suc (Suc (Suc 0)))" by simp
  then show ?thesis by (simp only: pad.simps append.simps)
qed

lemma pad6:
  "pad 6 n = [digit (n div 10 div 10 div 10 div 10 div 10 mod 10),
              digit (n div 10 div 10 div 10 div 10 mod 10),
              digit (n div 10 div 10 div 10 mod 10), digit (n div 10 div 10 mod 10),
              digit (n div 10 mod 10), digit (n mod 10)]"
proof -
  have "(6::nat) = Suc (Suc (Suc (Suc (Suc (Suc 0)))))" by simp
  then show ?thesis by (simp only: pad.simps append.simps)
qed

lemma read_pad2: "n < 100 \<Longrightarrow> read_digits 0 (pad 2 n) = Some n"
  by (simp only: read_digits_pad) simp

lemma read_pad3: "n < 1000 \<Longrightarrow> read_digits 0 (pad 3 n) = Some n"
  by (simp only: read_digits_pad) simp

lemma read_pad4: "n < 10000 \<Longrightarrow> read_digits 0 (pad 4 n) = Some n"
  by (simp only: read_digits_pad) simp

lemma read_pad6: "n < 1000000 \<Longrightarrow> read_digits 0 (pad 6 n) = Some n"
  by (simp only: read_digits_pad) simp

text \<open>The year loop and the month loop invert the running sums of the calendar.\<close>

lemma YearFromDay_sound:
  "YearFromDay y0 d = (y, doy) \<Longrightarrow> 1970 \<le> y0 \<Longrightarrow>
     y0 \<le> y \<and> doy < DaysInYear y \<and> DayFromYear (y0 - 1970) + d = DayFromYear (y - 1970) + doy"
proof (induction y0 d rule: YearFromDay.induct)
  case (1 y0 d)
  show ?case
  proof (cases "d < DaysInYear y0")
    case True
    with "1.prems" show ?thesis by (simp add: YearFromDay.simps [of y0 d])
  next
    case False
    with "1.prems" have eq: "YearFromDay (Suc y0) (d - DaysInYear y0) = (y, doy)"
      by (simp add: YearFromDay.simps [of y0 d])
    from "1.IH" [OF False eq] "1.prems"(2)
    have ih: "Suc y0 \<le> y" "doy < DaysInYear y"
      "DayFromYear (Suc y0 - 1970) + (d - DaysInYear y0) = DayFromYear (y - 1970) + doy"
      by auto
    from "1.prems"(2) have "Suc y0 - 1970 = Suc (y0 - 1970)" by simp
    with ih False "1.prems"(2) show ?thesis by simp
  qed
qed

lemma MonthFromDay_sound:
  "MonthFromDay y m0 d = (m, dm) \<Longrightarrow>
     m0 \<le> m \<and> dm < DaysInMonth y m \<and> DaysBeforeMonth y m0 + d = DaysBeforeMonth y m + dm"
proof (induction y m0 d rule: MonthFromDay.induct)
  case (1 y m0 d)
  show ?case
  proof (cases "d < DaysInMonth y m0")
    case True
    with "1.prems" show ?thesis by (simp add: MonthFromDay.simps [of y m0 d])
  next
    case False
    with "1.prems" have eq: "MonthFromDay y (Suc m0) (d - DaysInMonth y m0) = (m, dm)"
      by (simp add: MonthFromDay.simps [of y m0 d])
    from "1.IH" [OF False eq] False show ?thesis by simp
  qed
qed

lemma DaysBeforeMonth_12: "DaysBeforeMonth y 12 = DaysInYear y"
  by (simp add: numeral_eq_Suc DaysInMonth_def DaysInYear_def)

lemma DaysBeforeMonth_mono: "m \<le> n \<Longrightarrow> DaysBeforeMonth y m \<le> DaysBeforeMonth y n"
  by (induction n) (auto simp: le_Suc_eq)

lemma MonthFromDay_range:
  assumes "MonthFromDay y 0 d = (m, dm)" and "d < DaysInYear y"
  shows "m < 12"
proof (rule ccontr)
  assume "\<not> m < 12"
  then have "DaysBeforeMonth y 12 \<le> DaysBeforeMonth y m"
    by (intro DaysBeforeMonth_mono) simp
  moreover from MonthFromDay_sound [OF assms(1)] have "d = DaysBeforeMonth y m + dm" by simp
  ultimately show False using assms(2) by (simp add: DaysBeforeMonth_12)
qed

lemma DayFromYear_lower: "365 * n \<le> DayFromYear n"
  by (induction n) (auto simp: DaysInYear_def)

lemma time_linear:
  fixes t :: nat
  assumes "t = s * 1000 + r0" "s = mi * 60 + r1" "mi = h * 60 + r2" "h = q * 24 + r3"
  shows "q * 86400000 + r3 * 3600000 + r2 * 60000 + r1 * 1000 + r0 = t"
  unfolding assms by simp

lemma time_split:
  "(t div 86400000) * 86400000 + (t div 3600000 mod 24) * 3600000
     + (t div 60000 mod 60) * 60000 + (t div 1000 mod 60) * 1000 + t mod 1000 = (t::nat)"
proof -
  have a: "t div 60000 = t div 1000 div 60" by (simp add: div_mult2_eq [symmetric])
  have b: "t div 3600000 = t div 1000 div 60 div 60" by (simp add: div_mult2_eq [symmetric])
  have c: "t div 86400000 = t div 1000 div 60 div 60 div 24"
    by (simp add: div_mult2_eq [symmetric])
  show ?thesis
    unfolding a b c
    by (rule time_linear [where s = "t div 1000" and mi = "t div 1000 div 60"
          and h = "t div 1000 div 60 div 60"]) simp_all
qed

lemma DaysInMonth_le: "DaysInMonth y m \<le> 31"
  by (simp add: DaysInMonth_def)

lemma pad2_shape: "n < 100 \<Longrightarrow> \<exists>a b. pad 2 n = [a, b] \<and> read_digits 0 [a, b] = Some n"
  using read_pad2 [of n] by (simp add: pad2)

lemma pad3_shape:
  "n < 1000 \<Longrightarrow> \<exists>a b c. pad 3 n = [a, b, c] \<and> read_digits 0 [a, b, c] = Some n"
  using read_pad3 [of n] by (simp add: pad3)

lemma parse_time_fields:
  assumes "mo < 100" "d < 100" "h < 100" "mi < 100" "s < 100" "f < 1000"
  shows "parse_time y (''-'' @ pad 2 mo @ ''-'' @ pad 2 d @ ''T'' @ pad 2 h @ '':'' @ pad 2 mi
           @ '':'' @ pad 2 s @ ''.'' @ pad 3 f @ ''Z'') = instant y mo d h mi s f"
proof -
  from pad2_shape [OF assms(1)] obtain m1 m2
    where mo: "pad 2 mo = [m1, m2]" "read_digits 0 [m1, m2] = Some mo" by blast
  from pad2_shape [OF assms(2)] obtain d1 d2
    where d: "pad 2 d = [d1, d2]" "read_digits 0 [d1, d2] = Some d" by blast
  from pad2_shape [OF assms(3)] obtain h1 h2
    where h: "pad 2 h = [h1, h2]" "read_digits 0 [h1, h2] = Some h" by blast
  from pad2_shape [OF assms(4)] obtain n1 n2
    where mi: "pad 2 mi = [n1, n2]" "read_digits 0 [n1, n2] = Some mi" by blast
  from pad2_shape [OF assms(5)] obtain s1 s2
    where s: "pad 2 s = [s1, s2]" "read_digits 0 [s1, s2] = Some s" by blast
  from pad3_shape [OF assms(6)] obtain f1 f2 f3
    where f: "pad 3 f = [f1, f2, f3]" "read_digits 0 [f1, f2, f3] = Some f" by blast
  show ?thesis
    by (simp add: mo d h mi s f del: read_digits.simps)
qed

lemma parse_year_string:
  assumes "y < 1000000"
  shows "parse_iso8601 (year_string y @ ''-'' @ pad 2 mo @ r) = parse_time y (''-'' @ pad 2 mo @ r)"
proof (cases "y \<le> 9999")
  case True
  then have "read_digits 0 (pad 4 y) = Some y" by (simp add: read_pad4)
  then show ?thesis
    using True by (simp add: year_string_def pad4 pad2 digit_not_plus)
next
  case False
  from assms have "read_digits 0 (pad 6 y) = Some y" by (simp add: read_pad6)
  then show ?thesis
    using False by (simp add: year_string_def pad6 pad2)
qed

lemma parse_toISOString: "parse_iso8601 (toISOString tv) = Some (time_ms tv)"
proof -
  define t where "t = time_ms tv"
  have t_le: "t \<le> 8640000000000000" using time_ms [of tv] by (simp add: t_def)
  obtain y doy where yd: "YearFromDay 1970 (t div msPerDay) = (y, doy)" by force
  obtain m dm where md: "MonthFromDay y 0 doy = (m, dm)" by force
  from YearFromDay_sound [OF yd]
  have y: "1970 \<le> y" "doy < DaysInYear y" "t div msPerDay = DayFromYear (y - 1970) + doy"
    by simp_all
  from MonthFromDay_sound [OF md] have m: "dm < DaysInMonth y m" "doy = DaysBeforeMonth y m + dm"
    by simp_all
  have m12: "m < 12" by (rule MonthFromDay_range [OF md y(2)])
  have "365 * (y - 1970) \<le> t div msPerDay"
    using DayFromYear_lower [of "y - 1970"] y(3) by simp
  also have "\<dots> \<le> 100000000" using t_le by (simp add: msPerDay_def)
  finally have y_lt: "y < 1000000" by simp
  have dm: "dm + 1 < 100" using m(1) DaysInMonth_le [of y m] by simp
  have str: "toISOString tv = year_string y @ ''-'' @ pad 2 (m + 1) @ ''-'' @ pad 2 (dm + 1) @ ''T''
         @ pad 2 (t div 3600000 mod 24) @ '':'' @ pad 2 (t div 60000 mod 60) @ '':''
         @ pad 2 (t div 1000 mod 60) @ ''.'' @ pad 3 (t mod 1000) @ ''Z''"
    by (simp add: toISOString_def Let_def t_def [symmetric] yd md)
  have "parse_iso8601 (toISOString tv) =
          instant y (m + 1) (dm + 1) (t div 3600000 mod 24) (t div 60000 mod 60)
            (t div 1000 mod 60) (t mod 1000)"
    unfolding str
    by (subst parse_year_string [OF y_lt], subst parse_time_fields) (use m12 dm in simp_all)
  also have "\<dots> = Some ((t div msPerDay) * msPerDay + (t div 3600000 mod 24) * 3600000
       + (t div 60000 mod 60) * 60000 + (t div 1000 mod 60) * 1000 + t mod 1000)"
    using y(1) m12 m(1) by (simp add: instant_def y(3) m(2))
  also have "\<dots> = Some t" by (simp only: msPerDay_def time_split)
  finally show ?thesis by (simp add: t_def)
qed

section \<open>The stack in closed form\<close>

lemma db_test_responds: "\<exists>calls r. db_test srv rd req = (calls, Respond r)"
  by (simp add: db_test_def db_failed_def split: option.split sum.split)

lemma handle_app:
  "handle (app srv rd) req =
     (case body req of
        MalformedJson e \<Rightarrow> error_handler e req
      | MalformedUrlencoded e \<Rightarrow> error_handler e req
      | WellFormed \<Rightarrow>
          (if mounted_at ''/api-docs'' (path req) then swagger_ui (swaggerSpec srv) req
           else if method req = ''GET'' \<and> path req = ''/api-docs.json''
             then api_docs_json (swaggerSpec srv) req
           else if method req = ''GET'' \<and> path req = ''/'' then health srv rd req
           else if method req = ''GET'' \<and> path req = ''/info'' then info srv rd req
           else if method req = ''GET'' \<and> path req = ''/db-test'' then db_test srv rd req
           else not_found req))"
proof -
  obtain calls r where db: "db_test srv rd req = (calls, Respond r)"
    using db_test_responds by blast
  show ?thesis
    by (cases "body req")
       (simp_all add: handle_def app_def setupSwagger_def cors_def express_json_def
          express_urlencoded_def logger_def swagger_ui_def api_docs_json_def health_def
          info_def not_found_def error_handler_def db)
qed

lemma handle_app_part_000:
  "handle (app_part_000 srv rd) req =
     (case body req of
        MalformedJson e \<Rightarrow> error_handler e req
      | MalformedUrlencoded e \<Rightarrow> error_handler e req
      | WellFormed \<Rightarrow>
          (if method req = ''GET'' \<and> path req = ''/'' then health_part_000 srv rd req
           else if method req = ''GET'' \<and> path req = ''/info'' then info_part_000 srv rd req
           else not_found req))"
  by (cases "body req")
     (simp_all add: handle_def app_part_000_def cors_def express_json_def
        express_urlencoded_def logger_def health_part_000_def
        info_part_000_def not_found_def error_handler_def)

lemma walk_append:
  "walk (xs @ ys) pending req =
     (case walk xs pending req of
        (calls, Respond r) \<Rightarrow> (calls, Respond r)
      | (calls, Next) \<Rightarrow> (calls @ fst (walk ys None req), snd (walk ys None req))
      | (calls, Raise e) \<Rightarrow> (calls @ fst (walk ys (Some e) req), snd (walk ys (Some e) req)))"
proof (induction xs arbitrary: pending)
  case Nil
  then show ?case by (cases pending) simp_all
next
  case (Cons l xs)
  show ?case
  proof (cases "step l pending req")
    case None
    then show ?thesis by (simp add: Cons.IH)
  next
    case (Some a)
    obtain calls out where a: "a = (calls, out)" by (cases a)
    show ?thesis
    proof (cases out)
      case (Respond r)
      with Some a show ?thesis by simp
    next
      case Next
      with Some a show ?thesis
        by (simp add: Cons.IH split: prod.split outcome.split)
    next
      case (Raise e)
      with Some a show ?thesis
        by (simp add: Cons.IH split: prod.split outcome.split)
    qed
  qed
qed

lemma app_ends_with_error_handler:
  "app srv rd = butlast (app srv rd) @ [UseError error_handler]"
  "app_part_000 srv rd = butlast (app_part_000 srv rd) @ [UseError error_handler]"
  by (simp_all add: app_def app_part_000_def setupSwagger_def)

lemma routed_app:
  "routed (app srv rd) req =
     (mounted_at ''/api-docs'' (path req)
      \<or> method req = ''GET'' \<and> path req \<in> {''/api-docs.json'', ''/'', ''/info'', ''/db-test''})"
  by (auto simp: routed_def app_def setupSwagger_def)

lemma routed_app_part_000:
  "routed (app_part_000 srv rd) req = (method req = ''GET'' \<and> path req \<in> {''/'', ''/info''})"
  by (auto simp: routed_def app_part_000_def)

lemma not_mounted [simp]:
  "\<not> mounted_at ''/api-docs'' ''/''"
  "\<not> mounted_at ''/api-docs'' ''/info''"
  "\<not> mounted_at ''/api-docs'' ''/db-test''"
  "\<not> mounted_at ''/api-docs'' ''/api-docs.json''"
  by (simp_all add: mounted_at_def)

section \<open>Evaluation lemmas\<close>

lemma decimal_not_empty: "decimal n \<noteq> []"
  by (subst decimal.simps) simp

lemma read_digits_decimal: "read_digits 0 (decimal n) = Some n"
proof (induction n rule: decimal.induct)
  case (1 n)
  show ?case
  proof (cases "n < 10")
    case True
    then show ?thesis
      by (subst decimal.simps) (simp add: digit_value_digit)
  next
    case False
    with "1.IH" have "read_digits 0 (decimal (n div 10)) = Some (n div 10)" by simp
    with False show ?thesis
      by (subst decimal.simps) (simp add: read_digits_append digit_value_digit)
  qed
qed

lemma read_decimal_decimal: "read_decimal (decimal n) = Some n"
  by (simp add: read_decimal_def decimal_not_empty read_digits_decimal)

lemma megabytes_decimal:
  "megabytes b = decimal (nat (round (real b / (1024 * 1024)))) @ '' MB''"
proof -
  have "0 \<le> round (real b / 1024 / 1024)"
    by (simp add: round_def)
  then show ?thesis
    by (simp add: megabytes_def number_string_def)
qed

lemma megabytes_div: "nat (round (real b / (1024 * 1024))) = (b + 524288) div 1048576"
proof -
  have "real b / (1024 * 1024) + 1 / 2 = real (b + 524288) / real 1048576" by simp
  then have "\<lfloor>real b / (1024 * 1024) + 1 / 2\<rfloor> = int ((b + 524288) div 1048576)"
    by (simp only: floor_divide_of_nat_eq)
  then show ?thesis by (simp add: round_def)
qed

lemma handle_get:
  assumes "method req = ''GET''" "body req = WellFormed"
  shows "path req = ''/'' \<Longrightarrow> handle (app srv rd) req = health srv rd req"
    and "path req = ''/info'' \<Longrightarrow> handle (app srv rd) req = info srv rd req"
    and "path req = ''/db-test'' \<Longrightarrow> handle (app srv rd) req = db_test srv rd req"
    and "path req = ''/api-docs.json'' \<Longrightarrow>
           handle (app srv rd) req = api_docs_json (swaggerSpec srv) req"
    and "path req = ''/'' \<Longrightarrow> handle (app_part_000 srv rd) req = health_part_000 srv rd req"
    and "path req = ''/info'' \<Longrightarrow> handle (app_part_000 srv rd) req = info_part_000 srv rd req"
  using assms by (simp_all add: handle_app handle_app_part_000)

lemma or_else_cases:
  "or_else None d = d" "or_else (Some []) d = d" "s \<noteq> [] \<Longrightarrow> or_else (Some s) d = s"
  by (simp_all add: or_else_def)

lemma YearFromDay_stop: "d < DaysInYear y \<Longrightarrow> YearFromDay y d = (y, d)"
  by (simp add: YearFromDay.simps)

lemma YearFromDay_step:
  "\<not> d < DaysInYear y \<Longrightarrow> YearFromDay y d = YearFromDay (Suc y) (d - DaysInYear y)"
  by (subst YearFromDay.simps) simp

lemma MonthFromDay_stop: "d < DaysInMonth y m \<Longrightarrow> MonthFromDay y m d = (m, d)"
  by (simp add: MonthFromDay.simps)

lemma MonthFromDay_step:
  "\<not> d < DaysInMonth y m \<Longrightarrow> MonthFromDay y m d = MonthFromDay y (Suc m) (d - DaysInMonth y m)"
  by (subst MonthFromDay.simps) simp

lemma sample_year: "YearFromDay 1970 20462 = (2026, 8)"
  by (simp add: YearFromDay_stop YearFromDay_step DaysInYear_def InLeapYear_def)

lemma sample_month: "MonthFromDay 2026 0 8 = (0, 8)"
  by (simp add: MonthFromDay_stop DaysInMonth_def)

lemma digit_chars:
  "digit 0 = CHR ''0''" "digit 1 = CHR ''1''" "digit 2 = CHR ''2''" "digit 3 = CHR ''3''"
  "digit 4 = CHR ''4''" "digit 5 = CHR ''5''" "digit 6 = CHR ''6''" "digit 7 = CHR ''7''"
  "digit 8 = CHR ''8''" "digit 9 = CHR ''9''" "digit (Suc 0) = CHR ''1''"
  by code_simp+

lemma toISOString_sample: "toISOString (TimeValue 1767960000000) = ''2026-01-09T12:00:00.000Z''"
  by (simp add: toISOString_def TimeValue_inverse msPerDay_def sample_year sample_month
        year_string_def pad2 pad3 pad4 digit_chars)

text \<open>
  In the stack of \<^verbatim>\<open>src/index.ts\<close> the exceptions that reach the global error handler
  are the parse errors: no route handler raises, the probe catches what its calls throw.
\<close>

lemma only_parse_errors_raised:
  assumes "walk (butlast (app srv rd)) None req = (calls, Raise e)"
  shows "body req = MalformedJson e \<or> body req = MalformedUrlencoded e"
proof -
  obtain cs r where db: "db_test srv rd req = (cs, Respond r)"
    using db_test_responds by blast
  show ?thesis
    using assms
    by (cases "body req")
       (auto simp: app_def setupSwagger_def cors_def express_json_def
          express_urlencoded_def logger_def swagger_ui_def api_docs_json_def health_def
          info_def not_found_def db split: if_splits)
qed

lemma decimal_50: "decimal 50 = ''50''" "decimal 51 = ''51''" "decimal 10 = ''10''"
  by (simp_all add: decimal.simps digit_chars)

lemma round_sample: "round (101 / 2 :: real) = 51"
  by (simp add: round_def)

lemma decimal_100: "decimal 100 = ''100''"
  by (simp add: decimal.simps digit_chars)

lemma db_test_without_time:
  "run_without [''timestamp'', ''uptime''] (db_test srv rd1 req) =
   run_without [''timestamp'', ''uptime''] (db_test srv rd2 req)"
  by (simp add: run_without_def db_test_def db_failed_def split: option.split sum.split)

lemma db_test_without:
  "run_without [''timestamp'', ''uptime'', ''memoryUsage''] (db_test srv rd1 req) =
   run_without [''timestamp'', ''uptime'', ''memoryUsage''] (db_test srv rd2 req)"
  by (simp add: run_without_def db_test_def db_failed_def split: option.split sum.split)

lemma swaggerSpec_fields:
  "field ''openapi'' (swaggerSpec srv) = Some (JString ''3.0.0'')"
  "Option.bind (field ''info'' (swaggerSpec srv)) (field ''version'') = Some (JString ''1.0.0'')"
  "field ''paths'' (swaggerSpec srv) = Some (JObject (routes_annotations srv @ index_annotations))"
  "field ''timestamp'' (swaggerSpec srv) = None"
  by (simp_all add: swaggerSpec_def swaggerJsdoc_def swaggerDefinition_def)

lemma index_annotations_keys: "fst ` set index_annotations = {''/'', ''/info'', ''/db-test''}"
  by (simp add: index_annotations_def)

section \<open>The not-found fallback\<close>

text \<open>
  C1 (as amended). For every request whose body the parsers accept and whose (method, path)
  pair matches no declared route, the response has status 404 and the JSON body
  \<^verbatim>\<open>{error: "Route not found", path, method}\<close>, the path and the method being those of
  the request verbatim. This holds for both server files.
\<close>

theorem unmatched_route_not_found:
  assumes "body req = WellFormed"
  shows "(\<not> routed (app srv rd) req \<longrightarrow>
            handle (app srv rd) req =
              ([], Respond \<lparr>status = 404, sent = Json (JObject
                 [(''error'', JString ''Route not found''),
                  (''path'', JString (path req)),
                  (''method'', JString (method req))])\<rparr>))
       \<and> (\<not> routed (app_part_000 srv rd) req \<longrightarrow>
            handle (app_part_000 srv rd) req =
              ([], Respond \<lparr>status = 404, sent = Json (JObject
                 [(''error'', JString ''Route not found''),
                  (''path'', JString (path req)),
                  (''method'', JString (method req))])\<rparr>))"
  using assms
  by (auto simp: routed_app routed_app_part_000 handle_app handle_app_part_000 not_found_def)

theorem unmatched_route_not_found_witness:
  "handle (app sample_server sample_readings)
     \<lparr>method = ''DELETE'', path = ''/users/7'', body = WellFormed\<rparr> =
     ([], Respond \<lparr>status = 404, sent = Json (JObject
        [(''error'', JString ''Route not found''),
         (''path'', JString ''/users/7''),
         (''method'', JString ''DELETE'')])\<rparr>)
   \<and> handle (app_part_000 sample_server sample_readings)
     \<lparr>method = ''GET'', path = ''/db-test'', body = WellFormed\<rparr> =
     ([], Respond \<lparr>status = 404, sent = Json (JObject
        [(''error'', JString ''Route not found''),
         (''path'', JString ''/db-test''),
         (''method'', JString ''GET'')])\<rparr>)"
  using unmatched_route_not_found
          [of "\<lparr>method = ''DELETE'', path = ''/users/7'', body = WellFormed\<rparr>"
              sample_server sample_readings]
        unmatched_route_not_found
          [of "\<lparr>method = ''GET'', path = ''/db-test'', body = WellFormed\<rparr>"
              sample_server sample_readings]
  by (simp add: routed_app routed_app_part_000 mounted_at_def)

text \<open>
  C1 as stated fails: a request to an undeclared route whose JSON body is malformed is
  answered by the error handler with status 500.
\<close>

theorem unmatched_route_counterexample:
  "\<not> routed (app sample_server sample_readings)
       \<lparr>method = ''POST'', path = ''/nope'', body = MalformedJson parse_failure\<rparr>
   \<and> handle (app sample_server sample_readings)
       \<lparr>method = ''POST'', path = ''/nope'', body = MalformedJson parse_failure\<rparr> =
     ([], Respond \<lparr>status = 500, sent = Json (JObject
        [(''error'', JString ''Internal Server Error''),
         (''message'', JString ''Unexpected end of JSON input'')])\<rparr>)"
  by (simp add: routed_app mounted_at_def handle_app error_handler_def parse_failure_def)

section \<open>The health check\<close>

text \<open>
  C2 (as amended). For every request \<^verbatim>\<open>GET /\<close> whose body the parsers accept, the response
  has status 200 and a Health Response body whose environment field is the value of
  \<^verbatim>\<open>NODE_ENV\<close> verbatim when the variable is set and not empty, and "development" when
  it is unset or empty, and whose timestamp field is a valid ISO 8601 date-time denoting
  the clock reading of the handler. The second server file sends the same without the
  version.
\<close>

theorem health_check:
  assumes "method req = ''GET''" "path req = ''/''" "body req = WellFormed"
  shows "\<exists>environment.
           handle (app srv rd) req =
             ([], Respond \<lparr>status = 200, sent = Json (JObject
                [(''message'', JString ''Ready''),
                 (''timestamp'', JString (toISOString (now rd))),
                 (''environment'', JString environment),
                 (''version'', JString ''1.0.0'')])\<rparr>)
         \<and> handle (app_part_000 srv rd) req =
             ([], Respond \<lparr>status = 200, sent = Json (JObject
                [(''message'', JString ''Ready''),
                 (''timestamp'', JString (toISOString (now rd))),
                 (''environment'', JString environment)])\<rparr>)
         \<and> (case NODE_ENV srv of
               None \<Rightarrow> environment = ''development''
             | Some value \<Rightarrow> environment = (if value = [] then ''development'' else value))
         \<and> parse_iso8601 (toISOString (now rd)) = Some (time_ms (now rd))"
  using assms
  by (simp add: handle_get health_def health_part_000_def or_else_def parse_toISOString
        split: option.split)

theorem health_check_witness:
  "handle (app sample_server sample_readings)
     \<lparr>method = ''GET'', path = ''/'', body = WellFormed\<rparr> =
     ([], Respond \<lparr>status = 200, sent = Json (JObject
        [(''message'', JString ''Ready''),
         (''timestamp'', JString ''2026-01-09T12:00:00.000Z''),
         (''environment'', JString ''production''),
         (''version'', JString ''1.0.0'')])\<rparr>)
   \<and> parse_iso8601 ''2026-01-09T12:00:00.000Z'' = Some 1767960000000"
  using health_check [of "\<lparr>method = ''GET'', path = ''/'', body = WellFormed\<rparr>"
                         sample_server sample_readings]
  by (auto simp: sample_server_def sample_readings_def toISOString_sample TimeValue_inverse)

text \<open>
  C2 as stated fails twice: with \<^verbatim>\<open>NODE_ENV\<close> set to the empty string the body says
  "development", not the variable's value; and a \<^verbatim>\<open>GET /\<close> whose body is malformed is
  answered with status 500.
\<close>

theorem health_check_counterexample:
  "NODE_ENV (sample_server\<lparr>NODE_ENV := Some ''''\<rparr>) = Some ''''
   \<and> Option.bind
        (json_of (handle (app (sample_server\<lparr>NODE_ENV := Some ''''\<rparr>) sample_readings)
                    \<lparr>method = ''GET'', path = ''/'', body = WellFormed\<rparr>))
        (field ''environment'') = Some (JString ''development'')
   \<and> response_of (handle (app sample_server sample_readings)
        \<lparr>method = ''GET'', path = ''/'', body = MalformedJson parse_failure\<rparr>) =
       Some \<lparr>status = 500, sent = Json (JObject
         [(''error'', JString ''Internal Server Error''),
          (''message'', JString ''Unexpected end of JSON input'')])\<rparr>"
  by (simp add: handle_app health_def or_else_def error_handler_def parse_failure_def)

section \<open>The database probe\<close>

text \<open>
  C3 (as amended). For every request \<^verbatim>\<open>GET /db-test\<close> whose body the parsers accept: if the
  connect and both count queries of the database client succeed and the database holds
  \<open>n\<close> users and \<open>m\<close> posts, the request makes these three calls and the response has
  status 200 and the body \<^verbatim>\<open>{message: "Database connection successful", database:
  "Supabase PostgreSQL", userCount: n, postCount: m, timestamp}\<close>; with 3 users and 5
  posts, userCount is 3 and postCount is 5.
\<close>

theorem db_test_success:
  assumes "method req = ''GET''" "path req = ''/db-test''" "body req = WellFormed"
    and "connect (prisma srv) = None"
    and "user_count (prisma srv) = Inr n" "post_count (prisma srv) = Inr m"
  shows "handle (app srv rd) req =
           ([Connect None, UserCount (Inr n), PostCount (Inr m)],
            Respond \<lparr>status = 200, sent = Json (JObject
              [(''message'', JString ''Database connection successful''),
               (''database'', JString ''Supabase PostgreSQL''),
               (''userCount'', JNumber (real n)),
               (''postCount'', JNumber (real m)),
               (''timestamp'', JString (toISOString (now rd)))])\<rparr>)"
  using assms by (simp add: handle_get db_test_def)

theorem db_test_success_witness:
  "handle (app sample_server sample_readings)
     \<lparr>method = ''GET'', path = ''/db-test'', body = WellFormed\<rparr> =
     ([Connect None, UserCount (Inr 3), PostCount (Inr 5)],
      Respond \<lparr>status = 200, sent = Json (JObject
        [(''message'', JString ''Database connection successful''),
         (''database'', JString ''Supabase PostgreSQL''),
         (''userCount'', JNumber 3),
         (''postCount'', JNumber 5),
         (''timestamp'', JString ''2026-01-09T12:00:00.000Z'')])\<rparr>)"
  using db_test_success
          [of "\<lparr>method = ''GET'', path = ''/db-test'', body = WellFormed\<rparr>"
              sample_server 3 5 sample_readings]
  by (simp add: sample_server_def sample_db_def sample_readings_def toISOString_sample)

text \<open>
  C3 as stated fails: with a database whose connect and count queries succeed and that
  holds 3 users and 5 posts, a \<^verbatim>\<open>GET /db-test\<close> whose body is malformed makes no
  database call and is answered by the error handler with status 500.
\<close>

theorem db_test_success_counterexample:
  "connect (prisma sample_server) = None
   \<and> user_count (prisma sample_server) = Inr 3
   \<and> post_count (prisma sample_server) = Inr 5
   \<and> handle (app sample_server sample_readings)
       \<lparr>method = ''GET'', path = ''/db-test'', body = MalformedJson parse_failure\<rparr> =
     ([], Respond \<lparr>status = 500, sent = Json (JObject
        [(''error'', JString ''Internal Server Error''),
         (''message'', JString ''Unexpected end of JSON input'')])\<rparr>)"
  by (simp add: sample_server_def sample_db_def handle_app error_handler_def parse_failure_def)

text \<open>
  C4 (as amended). For every request \<^verbatim>\<open>GET /db-test\<close> whose body the parsers accept and in
  which the database connect or either count query fails (the connect rejects; or it
  resolves and the count of the users rejects; or both resolve and the count of the posts
  rejects), the response has status 500 and a JSON body with error equal to
  "Database connection failed" and a message field that is the message of the thrown
  \<^verbatim>\<open>Error\<close> verbatim, or "Unknown error" when the thrown value is not an \<^verbatim>\<open>Error\<close>.
\<close>

theorem db_test_failure:
  assumes "method req = ''GET''" "path req = ''/db-test''" "body req = WellFormed"
    and "connect (prisma srv) = Some t
         \<or> connect (prisma srv) = None \<and> user_count (prisma srv) = Inl t
         \<or> connect (prisma srv) = None \<and> (\<exists>n. user_count (prisma srv) = Inr n)
             \<and> post_count (prisma srv) = Inl t"
  shows "snd (handle (app srv rd) req) =
           Respond \<lparr>status = 500, sent = Json (JObject
             [(''error'', JString ''Database connection failed''),
              (''message'', JString (case t of
                  ThrownError e \<Rightarrow> message e
                | ThrownValue v \<Rightarrow> ''Unknown error''))])\<rparr>"
  using assms by (auto simp: handle_get db_test_def db_failed_def)

theorem db_test_failure_witness:
  "snd (handle (app (sample_server\<lparr>prisma := unreachable_db\<rparr>) sample_readings)
          \<lparr>method = ''GET'', path = ''/db-test'', body = WellFormed\<rparr>) =
     Respond \<lparr>status = 500, sent = Json (JObject
       [(''error'', JString ''Database connection failed''),
        (''message'', JString ''Cannot reach the database server'')])\<rparr>
   \<and> snd (handle (app (sample_server\<lparr>prisma := failing_posts_db\<rparr>) sample_readings)
          \<lparr>method = ''GET'', path = ''/db-test'', body = WellFormed\<rparr>) =
     Respond \<lparr>status = 500, sent = Json (JObject
       [(''error'', JString ''Database connection failed''),
        (''message'', JString ''The table public.Post does not exist'')])\<rparr>"
  using db_test_failure
          [of "\<lparr>method = ''GET'', path = ''/db-test'', body = WellFormed\<rparr>"
              "sample_server\<lparr>prisma := unreachable_db\<rparr>"
              "ThrownError (Error ''PrismaClientInitializationError''
                 ''Cannot reach the database server'')"
              sample_readings]
        db_test_failure
          [of "\<lparr>method = ''GET'', path = ''/db-test'', body = WellFormed\<rparr>"
              "sample_server\<lparr>prisma := failing_posts_db\<rparr>"
              "ThrownError (Error ''PrismaClientKnownRequestError''
                 ''The table public.Post does not exist'')"
              sample_readings]
  by (simp add: unreachable_db_def failing_posts_db_def)

text \<open>
  C4 as stated fails twice: when the connect rejects with an \<^verbatim>\<open>Error\<close> whose message is
  empty, the message field of the response is the empty string; and with a database that
  cannot be reached, a \<^verbatim>\<open>GET /db-test\<close> whose body is malformed is answered by the global
  error handler, whose error field is "Internal Server Error".
\<close>

theorem db_test_failure_counterexample:
  "handle (app (sample_server\<lparr>prisma :=
       \<lparr>connect = Some (ThrownError (Error ''Error'' '''')),
        user_count = Inr 3, post_count = Inr 5\<rparr>\<rparr>) sample_readings)
     \<lparr>method = ''GET'', path = ''/db-test'', body = WellFormed\<rparr> =
     ([Connect (Some (ThrownError (Error ''Error'' '''')))],
      Respond \<lparr>status = 500, sent = Json (JObject
        [(''error'', JString ''Database connection failed''),
         (''message'', JString '''')])\<rparr>)
   \<and> connect (prisma (sample_server\<lparr>prisma := unreachable_db\<rparr>)) \<noteq> None
   \<and> handle (app (sample_server\<lparr>prisma := unreachable_db\<rparr>) sample_readings)
     \<lparr>method = ''GET'', path = ''/db-test'', body = MalformedJson parse_failure\<rparr> =
     ([], Respond \<lparr>status = 500, sent = Json (JObject
        [(''error'', JString ''Internal Server Error''),
         (''message'', JString ''Unexpected end of JSON input'')])\<rparr>)"
  by (simp add: handle_app db_test_def db_failed_def unreachable_db_def error_handler_def
        parse_failure_def)




section \<open>Uncaught exceptions\<close>

text \<open>
  C5. Whatever layers are registered before the global error handler: when running them
  ends with an exception \<open>e\<close> that no layer caught, the response has status 500 and the
  body \<^verbatim>\<open>{error: "Internal Server Error", message}\<close> with the message of \<open>e\<close>; of the
  exception nothing but its message is used. In both server files this is what a parse
  error of either body parser leads to.
\<close>

theorem uncaught_exception_flattened:
  "(walk stack None req = (calls, Raise e) \<longrightarrow>
      handle (stack @ [UseError error_handler]) req =
        (calls, Respond \<lparr>status = 500, sent = Json (JObject
           [(''error'', JString ''Internal Server Error''),
            (''message'', JString (message e))])\<rparr>))
   \<and> (body req = MalformedJson e \<or> body req = MalformedUrlencoded e \<longrightarrow>
      handle (app srv rd) req =
        ([], Respond \<lparr>status = 500, sent = Json (JObject
           [(''error'', JString ''Internal Server Error''),
            (''message'', JString (message e))])\<rparr>)
      \<and> handle (app_part_000 srv rd) req =
        ([], Respond \<lparr>status = 500, sent = Json (JObject
           [(''error'', JString ''Internal Server Error''),
            (''message'', JString (message e))])\<rparr>))"
  by (auto simp: handle_def walk_append error_handler_def
        handle_app [unfolded handle_def] handle_app_part_000 [unfolded handle_def])

theorem uncaught_exception_flattened_witness:
  "handle (app sample_server sample_readings)
     \<lparr>method = ''POST'', path = ''/info'', body = MalformedUrlencoded parse_failure\<rparr> =
     ([], Respond \<lparr>status = 500, sent = Json (JObject
        [(''error'', JString ''Internal Server Error''),
         (''message'', JString ''Unexpected end of JSON input'')])\<rparr>)"
proof -
  let ?req = "\<lparr>method = ''POST'', path = ''/info'', body = MalformedUrlencoded parse_failure\<rparr>"
  have raised: "walk (butlast (app sample_server sample_readings)) None ?req
                  = ([], Raise parse_failure)"
    by (simp add: app_def setupSwagger_def cors_def express_json_def express_urlencoded_def)
  from uncaught_exception_flattened
         [of "butlast (app sample_server sample_readings)" ?req "[]" parse_failure]
       raised
  have "handle (butlast (app sample_server sample_readings) @ [UseError error_handler]) ?req =
          ([], Respond \<lparr>status = 500, sent = Json (JObject
             [(''error'', JString ''Internal Server Error''),
              (''message'', JString (message parse_failure))])\<rparr>)"
    by blast
  then show ?thesis
    by (simp only: app_ends_with_error_handler [symmetric]) (simp add: parse_failure_def)
qed

section \<open>System information\<close>

text \<open>
  C6 (as amended). For every request \<^verbatim>\<open>GET /info\<close> whose body the parsers accept, the
  \<^verbatim>\<open>memoryUsage.rss\<close> and \<^verbatim>\<open>memoryUsage.heapUsed\<close> of the response body are strings
  ending in " MB" whose prefixes are the decimal digits of a natural number: the byte
  count of the process divided by 1024 * 1024 and rounded. This holds for both server
  files.
\<close>

theorem info_memory_usage:
  assumes "method req = ''GET''" "path req = ''/info''" "body req = WellFormed"
  shows "\<exists>memoryUsage p q.
           Option.bind (json_of (handle (app srv rd) req)) (field ''memoryUsage'')
             = Some memoryUsage
         \<and> Option.bind (json_of (handle (app_part_000 srv rd) req)) (field ''memoryUsage'')
             = Some memoryUsage
         \<and> field ''rss'' memoryUsage = Some (JString (p @ '' MB''))
         \<and> read_decimal p = Some (nat (round (real (rss rd) / (1024 * 1024))))
         \<and> field ''heapUsed'' memoryUsage = Some (JString (q @ '' MB''))
         \<and> read_decimal q = Some (nat (round (real (heapUsed rd) / (1024 * 1024))))"
proof -
  let ?p = "decimal (nat (round (real (rss rd) / (1024 * 1024))))"
  let ?q = "decimal (nat (round (real (heapUsed rd) / (1024 * 1024))))"
  let ?m = "JObject [(''rss'', JString (?p @ '' MB'')), (''heapUsed'', JString (?q @ '' MB''))]"
  have "Option.bind (json_of (handle (app srv rd) req)) (field ''memoryUsage'') = Some ?m"
    using assms by (simp add: handle_get info_def megabytes_decimal)
  moreover
  have "Option.bind (json_of (handle (app_part_000 srv rd) req)) (field ''memoryUsage'') = Some ?m"
    using assms by (simp add: handle_get info_part_000_def megabytes_decimal)
  moreover have "field ''rss'' ?m = Some (JString (?p @ '' MB''))" by simp
  moreover have "field ''heapUsed'' ?m = Some (JString (?q @ '' MB''))" by simp
  ultimately show ?thesis
    using read_decimal_decimal by blast
qed

theorem info_memory_usage_witness:
  "Option.bind
     (json_of (handle (app sample_server sample_readings)
                 \<lparr>method = ''GET'', path = ''/info'', body = WellFormed\<rparr>))
     (field ''memoryUsage'') =
     Some (JObject [(''rss'', JString ''51 MB''), (''heapUsed'', JString ''10 MB'')])
   \<and> read_decimal ''51'' = Some 51 \<and> read_decimal ''10'' = Some 10"
proof -
  let ?req = "\<lparr>method = ''GET'', path = ''/info'', body = WellFormed\<rparr>"
  from info_memory_usage [of ?req sample_server sample_readings]
  obtain memoryUsage p q where
    m: "Option.bind (json_of (handle (app sample_server sample_readings) ?req))
          (field ''memoryUsage'') = Some memoryUsage"
    and p: "field ''rss'' memoryUsage = Some (JString (p @ '' MB''))"
      "read_decimal p = Some (nat (round (real (rss sample_readings) / (1024 * 1024))))"
    and q: "field ''heapUsed'' memoryUsage = Some (JString (q @ '' MB''))"
      "read_decimal q = Some (nat (round (real (heapUsed sample_readings) / (1024 * 1024))))"
    by auto
  have v: "memoryUsage = JObject [(''rss'', JString ''51 MB''), (''heapUsed'', JString ''10 MB'')]"
    using m
    by (simp add: handle_app info_def megabytes_decimal sample_readings_def round_sample
          decimal_50)
  from p q have "read_decimal ''51'' = Some 51" "read_decimal ''10'' = Some 10"
    unfolding v by (simp_all add: sample_readings_def round_sample)
  with m v show ?thesis by simp
qed

text \<open>
  C6 as stated fails: a \<^verbatim>\<open>GET /info\<close> whose body is malformed is answered with status
  500 and a body without \<^verbatim>\<open>memoryUsage\<close>.
\<close>

theorem info_memory_usage_counterexample:
  "handle (app sample_server sample_readings)
     \<lparr>method = ''GET'', path = ''/info'', body = MalformedUrlencoded parse_failure\<rparr> =
     ([], Respond \<lparr>status = 500, sent = Json (JObject
        [(''error'', JString ''Internal Server Error''),
         (''message'', JString ''Unexpected end of JSON input'')])\<rparr>)
   \<and> Option.bind
        (json_of (handle (app sample_server sample_readings)
           \<lparr>method = ''GET'', path = ''/info'', body = MalformedUrlencoded parse_failure\<rparr>))
        (field ''memoryUsage'') = None"
  by (simp add: handle_app error_handler_def parse_failure_def)

section \<open>Repeating a request\<close>

text \<open>
  C7 (as amended). Two runs of the same request with the server and the database
  unchanged make the same database calls and yield responses of the same status and the
  same body except for the timestamp and uptime fields and, when the memory sizes the
  process reports differ between the runs, the memoryUsage field; whatever the clock and
  the process report in each run. This holds for every request, so for every GET route,
  and for both server files.
\<close>

theorem repeated_request:
  "run_without [''timestamp'', ''uptime'', ''memoryUsage''] (handle (app srv rd1) req) =
   run_without [''timestamp'', ''uptime'', ''memoryUsage''] (handle (app srv rd2) req)
   \<and> run_without [''timestamp'', ''uptime'', ''memoryUsage''] (handle (app_part_000 srv rd1) req) =
     run_without [''timestamp'', ''uptime'', ''memoryUsage''] (handle (app_part_000 srv rd2) req)
   \<and> (rss rd1 = rss rd2 \<and> heapUsed rd1 = heapUsed rd2 \<longrightarrow>
        run_without [''timestamp'', ''uptime''] (handle (app srv rd1) req) =
        run_without [''timestamp'', ''uptime''] (handle (app srv rd2) req)
      \<and> run_without [''timestamp'', ''uptime''] (handle (app_part_000 srv rd1) req) =
        run_without [''timestamp'', ''uptime''] (handle (app_part_000 srv rd2) req))"
proof (cases "body req")
  case WellFormed
  then show ?thesis
    by (simp add: handle_app handle_app_part_000 db_test_without db_test_without_time)
       (simp add: run_without_def health_def info_def health_part_000_def info_part_000_def)
qed (simp_all add: handle_app handle_app_part_000)

theorem repeated_request_witness:
  "run_without [''timestamp'', ''uptime'']
     (handle (app sample_server sample_readings)
        \<lparr>method = ''GET'', path = ''/info'', body = WellFormed\<rparr>) =
   run_without [''timestamp'', ''uptime'']
     (handle (app sample_server (sample_readings\<lparr>now := TimeValue 1767960060000, uptime := 72.5\<rparr>))
        \<lparr>method = ''GET'', path = ''/info'', body = WellFormed\<rparr>)"
  using repeated_request [of sample_server sample_readings
          "\<lparr>method = ''GET'', path = ''/info'', body = WellFormed\<rparr>"
          "sample_readings\<lparr>now := TimeValue 1767960060000, uptime := 72.5\<rparr>"]
  by simp

text \<open>
  C7 as stated fails: with the server and the database unchanged, two requests
  \<^verbatim>\<open>GET /info\<close> that find the process at different memory sizes differ in
  \<^verbatim>\<open>memoryUsage.rss\<close>, a field that is neither the timestamp nor the uptime.
\<close>

theorem repeated_request_counterexample:
  "run_without [''timestamp'', ''uptime'']
     (handle (app sample_server sample_readings)
        \<lparr>method = ''GET'', path = ''/info'', body = WellFormed\<rparr>) \<noteq>
   run_without [''timestamp'', ''uptime'']
     (handle (app sample_server (sample_readings\<lparr>rss := 104857600\<rparr>))
        \<lparr>method = ''GET'', path = ''/info'', body = WellFormed\<rparr>)"
  by (simp add: handle_app info_def run_without_def megabytes_decimal round_sample
        sample_readings_def decimal_50 decimal_100)

section \<open>The specification document\<close>

text \<open>
  C8 (as amended). For every request \<^verbatim>\<open>GET /api-docs.json\<close> whose body the parsers accept,
  the response is the JSON specification document, with status 200; its \<^verbatim>\<open>info.version\<close>
  is the configured "1.0.0", and the set of its documented paths is a superset of
  \<^verbatim>\<open>{/, /info, /db-test}\<close>.
\<close>

theorem api_docs_json_document:
  assumes "method req = ''GET''" "path req = ''/api-docs.json''" "body req = WellFormed"
  shows "\<exists>document paths.
           handle (app srv rd) req = ([], Respond \<lparr>status = 200, sent = Json document\<rparr>)
         \<and> Option.bind (field ''info'' document) (field ''version'') = Some (JString ''1.0.0'')
         \<and> field ''paths'' document = Some paths
         \<and> {''/'', ''/info'', ''/db-test''} \<subseteq> keys paths"
proof (intro exI conjI)
  show "handle (app srv rd) req = ([], Respond \<lparr>status = 200, sent = Json (swaggerSpec srv)\<rparr>)"
    using assms by (simp add: handle_get api_docs_json_def)
  show "Option.bind (field ''info'' (swaggerSpec srv)) (field ''version'') = Some (JString ''1.0.0'')"
    by (rule swaggerSpec_fields)
  show "field ''paths'' (swaggerSpec srv)
          = Some (JObject (routes_annotations srv @ index_annotations))"
    by (rule swaggerSpec_fields)
  have "keys (JObject (routes_annotations srv @ index_annotations))
          = fst ` set (routes_annotations srv) \<union> {''/'', ''/info'', ''/db-test''}"
    by (simp only: keys.simps set_append image_Un index_annotations_keys)
  then show "{''/'', ''/info'', ''/db-test''}
          \<subseteq> keys (JObject (routes_annotations srv @ index_annotations))"
    by (simp only: Un_upper2)
qed

theorem api_docs_json_document_witness:
  "Option.bind (Option.bind
      (json_of (handle (app sample_server sample_readings)
         \<lparr>method = ''GET'', path = ''/api-docs.json'', body = WellFormed\<rparr>))
      (field ''info'')) (field ''version'') = Some (JString ''1.0.0'')
   \<and> map_option keys (Option.bind
      (json_of (handle (app sample_server sample_readings)
         \<lparr>method = ''GET'', path = ''/api-docs.json'', body = WellFormed\<rparr>))
      (field ''paths'')) = Some {''/'', ''/info'', ''/db-test''}"
proof -
  let ?req = "\<lparr>method = ''GET'', path = ''/api-docs.json'', body = WellFormed\<rparr>"
  from api_docs_json_document [of ?req sample_server sample_readings]
  obtain document paths where
    run: "handle (app sample_server sample_readings) ?req =
            ([], Respond \<lparr>status = 200, sent = Json document\<rparr>)"
    and version: "Option.bind (field ''info'' document) (field ''version'') = Some (JString ''1.0.0'')"
    and paths: "field ''paths'' document = Some paths"
    by auto
  have "document = swaggerSpec sample_server"
    using run by (simp add: handle_app api_docs_json_def)
  with paths have "paths = JObject index_annotations"
    by (simp add: swaggerSpec_fields sample_server_def)
  then have "keys paths = {''/'', ''/info'', ''/db-test''}"
    by (simp only: keys.simps index_annotations_keys)
  with run version paths show ?thesis by simp
qed

text \<open>
  C8 as stated fails: a \<^verbatim>\<open>GET /api-docs.json\<close> whose body is malformed is answered with
  status 500 and the error body, which declares no version.
\<close>

theorem api_docs_json_document_counterexample:
  "handle (app sample_server sample_readings)
     \<lparr>method = ''GET'', path = ''/api-docs.json'', body = MalformedJson parse_failure\<rparr> =
     ([], Respond \<lparr>status = 500, sent = Json (JObject
        [(''error'', JString ''Internal Server Error''),
         (''message'', JString ''Unexpected end of JSON input'')])\<rparr>)
   \<and> Option.bind
        (json_of (handle (app sample_server sample_readings)
           \<lparr>method = ''GET'', path = ''/api-docs.json'', body = MalformedJson parse_failure\<rparr>))
        (field ''info'') = None"
  by (simp add: handle_app error_handler_def parse_failure_def)

section \<open>Status and body\<close>

text \<open>
  C9. For every request, in both server files, a layer answers; the status is 200 with a
  success shape, 404 with the not-found Error Response of the request, or 500 with the
  internal-error Error Response; and the timestamp field of the body, when there is one,
  is the clock reading of the handler as \<^verbatim>\<open>toISOString\<close> prints it, a valid ISO 8601
  date-time in UTC that denotes this reading.
\<close>

theorem status_matches_body:
  assumes "stack = app srv rd \<or> stack = app_part_000 srv rd"
  shows "\<exists>calls r.
           handle stack req = (calls, Respond r)
         \<and> (status r = 200 \<and> success_shape (sent r)
            \<or> status r = 404 \<and> not_found_shape req (sent r)
            \<or> status r = 500 \<and> internal_error_shape (sent r))
         \<and> Option.bind (json_of (handle stack req)) (field ''timestamp'')
              \<in> {None, Some (JString (toISOString (now rd)))}
         \<and> parse_iso8601 (toISOString (now rd)) = Some (time_ms (now rd))"
proof -
  let ?ok = "\<lambda>run. \<exists>calls r.
           run = (calls, Respond r)
         \<and> (status r = 200 \<and> success_shape (sent r)
            \<or> status r = 404 \<and> not_found_shape req (sent r)
            \<or> status r = 500 \<and> internal_error_shape (sent r))
         \<and> Option.bind (json_of run) (field ''timestamp'')
              \<in> {None, Some (JString (toISOString (now rd)))}"
  have failed: "?ok (error_handler e req)" for e
    by (simp add: error_handler_def internal_error_shape_def)
  have missing: "?ok (not_found req)"
    by (simp add: not_found_def not_found_shape_def)
  have ui: "?ok (swagger_ui (swaggerSpec srv) req)"
    by (simp add: swagger_ui_def success_shape_def)
  have doc: "?ok (api_docs_json (swaggerSpec srv) req)"
    by (simp add: api_docs_json_def success_shape_def swaggerSpec_fields)
  have health: "?ok (health srv rd req)" "?ok (health_part_000 srv rd req)"
    by (simp_all add: health_def health_part_000_def success_shape_def)
  have info: "?ok (info srv rd req)" "?ok (info_part_000 srv rd req)"
    by (simp_all add: info_def info_part_000_def success_shape_def)
  have probe: "?ok (db_test srv rd req)"
    by (simp add: db_test_def db_failed_def success_shape_def internal_error_shape_def
          split: option.split sum.split thrown.split)
  have "?ok (handle (app srv rd) req)"
    unfolding handle_app
    using failed missing ui doc health(1) info(1) probe
    by (simp only: split: body_state.split if_split) blast
  moreover have "?ok (handle (app_part_000 srv rd) req)"
    unfolding handle_app_part_000
    using failed missing health(2) info(2)
    by (simp only: split: body_state.split if_split) blast
  ultimately have "?ok (handle stack req)"
    using assms by blast
  then show ?thesis
    using parse_toISOString [of "now rd"] by blast
qed

theorem status_matches_body_witness:
  "\<exists>calls r.
     handle (app_part_000 sample_server sample_readings)
       \<lparr>method = ''PUT'', path = ''/info'', body = WellFormed\<rparr> = (calls, Respond r)
   \<and> (status r = 200 \<and> success_shape (sent r)
      \<or> status r = 404
        \<and> not_found_shape \<lparr>method = ''PUT'', path = ''/info'', body = WellFormed\<rparr> (sent r)
      \<or> status r = 500 \<and> internal_error_shape (sent r))
   \<and> Option.bind
        (json_of (handle (app_part_000 sample_server sample_readings)
           \<lparr>method = ''PUT'', path = ''/info'', body = WellFormed\<rparr>))
        (field ''timestamp'') \<in> {None, Some (JString (toISOString (now sample_readings)))}
   \<and> parse_iso8601 (toISOString (now sample_readings)) = Some (time_ms (now sample_readings))"
  using status_matches_body
          [of "app_part_000 sample_server sample_readings" sample_server sample_readings
              "\<lparr>method = ''PUT'', path = ''/info'', body = WellFormed\<rparr>"]
  by simp

end
